theory Spec2Isabelle
  imports Main "HOL-Library.Word" "HOL-Library.Sublist"
begin

section \<open>The SSL transport of revshell (ssl.cc)\<close>

text \<open>
  The file ssl.cc drives OpenSSL, a TCP stream object (\<open>m_tcp\<close>) and a message
  buffer. All three are collaborators whose code is not part of ssl.cc. Every call
  that leaves ssl.cc is a value of the type \<open>call\<close>; what the collaborator answers
  is a \<open>reply\<close>. The environment is an arbitrary function from the number of calls
  made so far and the call to the reply, so a theorem about every environment is a
  theorem about every sequence of answers the collaborators can give. The calls and
  the replies are recorded, in order, in the \<open>trace\<close> of the \<open>world\<close>.

  C \<open>int\<close> values are modelled as \<open>int\<close>. No arithmetic of ssl.cc leaves the range of
  a C \<open>int\<close> on the inputs the theorems below are about (the only arithmetic is the
  byte counter of \<open>send\<close>, which stays between 0 and the message length when every
  write returns a count between 1 and the count requested). Pointers are integers,
  \<open>NULL\<close> is 0.
\<close>

subsection \<open>Calls, replies, worlds\<close>

type_synonym byte = "8 word"
type_synonym ptr = int

abbreviation (input) NULL :: ptr where
  "NULL \<equiv> 0"

datatype call =
    SSL_library_init
  | OpenSSL_add_all_algorithms
  | SSL_load_error_strings
  | TLSv1_client_method
  | TLSv1_server_method
  | SSL_CTX_new ptr
  | BIO_new_mem_buf "byte list" int
  | PEM_read_bio_X509 ptr
  | PEM_read_bio_RSAPrivateKey ptr
  | SSL_CTX_use_certificate ptr ptr
  | SSL_CTX_use_RSAPrivateKey ptr ptr
  | SSL_CTX_check_private_key ptr
  | SSL_new ptr
  | tcp_connect string int
  | tcp_bind int
  | tcp_accept
  | SSL_set_fd ptr int
  | SSL_connect ptr
  | SSL_accept ptr
  | SSL_get_cipher ptr
  | sock_set_blocking int bool
  | SSL_get_peer_certificate ptr
  | X509_get_subject_name ptr
  | X509_get_issuer_name ptr
  | X509_NAME_oneline ptr
  | free ptr
  | X509_free ptr
  | SSL_write ptr "byte list" int
  | SSL_read ptr nat int
  | SSL_shutdown ptr
  | SSL_free ptr
  | SSL_CTX_free ptr
  | tcp_close
  | LOG string

text \<open>
  \<open>SSL_write\<close> carries the bytes its buffer argument points at. \<open>SSL_read\<close> only
  writes to its buffer: the call carries the capacity of the storage the pointer
  refers to at the time of the call, and the number of bytes requested. The methods
  of \<open>m_tcp\<close> are \<open>tcp_connect\<close>, \<open>tcp_bind\<close>, \<open>tcp_accept\<close> and \<open>tcp_close\<close>.
  \<open>LOG\<close> carries its format string, without the final newline.

  A reply carries the C return value (a pointer for the calls that return one) and,
  for \<open>SSL_read\<close>, the bytes the session delivers.
\<close>

record reply =
  ret :: int
  payload :: "byte list"

type_synonym env = "nat \<Rightarrow> call \<Rightarrow> reply"

record world =
  clock :: nat
  trace :: "(call \<times> reply) list"

definition answer :: "env \<Rightarrow> call \<Rightarrow> world \<Rightarrow> reply" where
  "answer E c w = E (clock w) c"

definition after :: "env \<Rightarrow> call \<Rightarrow> world \<Rightarrow> world" where
  "after E c w = \<lparr>clock = Suc (clock w), trace = trace w @ [(c, E (clock w) c)]\<rparr>"

text \<open>The calls and replies a run has added to the trace of the world it started in.\<close>

definition added :: "world \<Rightarrow> world \<Rightarrow> (call \<times> reply) list" where
  "added w w' = drop (length (trace w)) (trace w')"

subsection \<open>Declarations that ssl.cc includes\<close>

text \<open>
  The constants \<open>TPT_CLIENT\<close>, \<open>TPT_SERVER\<close>, \<open>TPT_CLOSE\<close>, \<open>TPT_EMPTY\<close> (core.h),
  the header length and header layout of \<open>message\<close> (core.h) and the embedded
  certificate and key buffers (cert.h) are declared outside ssl.cc. They are
  parameters of the model.
\<close>

record decls =
  TPT_CLIENT :: int
  TPT_SERVER :: int
  TPT_CLOSE :: int
  TPT_EMPTY :: int
  header_len :: nat
  header_body_len :: "byte list \<Rightarrow> nat"
  crtbuf :: "byte list"
  crtbuf_len :: int
  keybuf :: "byte list"
  keybuf_len :: int

subsection \<open>The message buffer\<close>

text \<open>
  Modelled from the spec: the class \<open>message\<close> (core.h), which ssl.cc only uses.
  The spec describes it as a fixed-size header that describes the length of the
  body, followed by a variable-length body: "\<open>headerLength\<close> (fixed constant), a way
  to read/write raw bytes for header and body, \<open>bodyLength()\<close> derived from the
  header, and \<open>resize(n)\<close> for the body region". \<open>data()\<close> is the start of the header,
  \<open>body()\<close> the start of the body storage, and the serialized message is the header
  followed by the body.
\<close>

record message =
  hdr :: "byte list"
  bdy :: "byte list"

definition body_len :: "decls \<Rightarrow> message \<Rightarrow> nat" where
  "body_len K m = header_body_len K (hdr m)"

definition data_len :: "decls \<Rightarrow> message \<Rightarrow> int" where
  "data_len K m = int (header_len K) + int (body_len K m)"

definition data :: "message \<Rightarrow> byte list" where
  "data m = hdr m @ bdy m"

definition resize :: "nat \<Rightarrow> message \<Rightarrow> message" where
  "resize n m = m\<lparr>bdy := take n (bdy m) @ replicate (n - length (bdy m)) 0\<rparr>"

text \<open>
  What a buffer holds after \<open>SSL_read\<close> has answered: a positive return value \<open>r\<close>
  means that the first \<open>r\<close> bytes of the buffer were overwritten with the bytes
  delivered; otherwise the buffer is untouched. \<open>SSL_read\<close> returns at most the count
  it was asked for and delivers as many bytes as it returns; no definition relies on
  that, and the one theorem that speaks of the bytes read assumes it of the reply.
\<close>

definition fill :: "byte list \<Rightarrow> reply \<Rightarrow> byte list" where
  "fill buf rep = take (nat (ret rep)) (payload rep) @ drop (nat (ret rep)) buf"

subsection \<open>The transport object\<close>

record ssl_transport =
  m_ctx :: ptr
  m_ssl :: ptr
  m_opt_host :: string
  m_opt_port :: int

subsection \<open>recv\<close>

text \<open>
  \<open>ssl_transport::recv\<close>. The result is the C return value, the message as the call
  leaves it, and the world.
\<close>

definition recv :: "decls \<Rightarrow> env \<Rightarrow> world \<Rightarrow> ssl_transport \<Rightarrow> message \<Rightarrow> int \<times> message \<times> world" where
  "recv K E w t msg =
     (let c1 = SSL_read (m_ssl t) (length (hdr msg)) (int (header_len K));
          r1 = answer E c1 w;
          w1 = after E c1 w;
          msg1 = msg\<lparr>hdr := fill (hdr msg) r1\<rparr>;
          bytes = ret r1
      in if bytes = 0 then (TPT_CLOSE K, msg1, w1)
         else if bytes < 0 then (TPT_EMPTY K, msg1, w1)
         else
           (let msg2 = resize (body_len K msg1) msg1;
                c2 = SSL_read (m_ssl t) (length (bdy msg2)) (int (body_len K msg2));
                r2 = answer E c2 w1;
                w2 = after E c2 w1;
                msg3 = msg2\<lparr>bdy := fill (bdy msg2) r2\<rparr>
            in (ret r2, msg3, w2)))"

subsection \<open>ssl_load_cert_bufs\<close>

text \<open>
  \<open>ssl_load_cert_bufs\<close>. Both memory BIOs are created with length \<open>-1\<close>; the
  parameters \<open>crt_len\<close> and \<open>key_len\<close> do not occur in the body. The trailing
  arguments \<open>NULL, 0, NULL\<close> of the two PEM readers are constant and left out of the
  calls. The context is changed inside OpenSSL: what has been done to it is the
  sequence of calls that name it in the trace.
\<close>

definition ssl_load_cert_bufs ::
  "env \<Rightarrow> world \<Rightarrow> ptr \<Rightarrow> byte list \<Rightarrow> int \<Rightarrow> byte list \<Rightarrow> int \<Rightarrow> int \<times> world" where
  "ssl_load_cert_bufs E w ctx crt_buf crt_len key_buf key_len =
     (let c1 = BIO_new_mem_buf crt_buf (- 1);
          cbio = ret (answer E c1 w);
          w1 = after E c1 w;
          c2 = PEM_read_bio_X509 cbio;
          cert = ret (answer E c2 w1);
          w2 = after E c2 w1;
          c3 = BIO_new_mem_buf key_buf (- 1);
          kbio = ret (answer E c3 w2);
          w3 = after E c3 w2;
          c4 = PEM_read_bio_RSAPrivateKey kbio;
          key = ret (answer E c4 w3);
          w4 = after E c4 w3;
          c5 = SSL_CTX_use_certificate ctx cert;
          w5 = after E c5 w4
      in if ret (answer E c5 w4) \<le> 0
         then (- 1, after E (LOG ''error: openssl failed to load certificate buffer'') w5)
         else
           (let c6 = SSL_CTX_use_RSAPrivateKey ctx key;
                w6 = after E c6 w5
            in if ret (answer E c6 w5) \<le> 0
               then (- 1, after E (LOG ''error: openssl failed to load key buffer'') w6)
               else
                 (let c7 = SSL_CTX_check_private_key ctx;
                      w7 = after E c7 w6
                  in if ret (answer E c7 w6) = 0
                     then (- 1, after E (LOG ''error: private key does not match public certificate'') w7)
                     else (0, w7))))"

subsection \<open>ssl_dump_certs\<close>

definition ssl_dump_certs :: "env \<Rightarrow> world \<Rightarrow> ptr \<Rightarrow> world" where
  "ssl_dump_certs E w ssl =
     (let c1 = SSL_get_peer_certificate ssl;
          cert = ret (answer E c1 w);
          w1 = after E c1 w
      in if cert \<noteq> NULL then
           (let c2 = X509_get_subject_name cert;
                subject = ret (answer E c2 w1);
                w2 = after E c2 w1;
                c3 = X509_NAME_oneline subject;
                line = ret (answer E c3 w2);
                w3 = after E c3 w2;
                w4 = after E (LOG ''[subject]\<newline>%s'') w3;
                w5 = after E (free line) w4;
                c6 = X509_get_issuer_name cert;
                issuer = ret (answer E c6 w5);
                w6 = after E c6 w5;
                c7 = X509_NAME_oneline issuer;
                line2 = ret (answer E c7 w6);
                w7 = after E c7 w6;
                w8 = after E (LOG ''[issuer]\<newline>%s'') w7;
                w9 = after E (free line2) w8
            in after E (X509_free cert) w9)
         else after E (LOG ''info: no certs to dump'') w1)"

subsection \<open>Constructor and init\<close>

text \<open>The constructor; \<open>host\<close> is the string \<open>sock_get_ip()\<close> returned.\<close>

definition ssl_transport_ctor :: "string \<Rightarrow> ssl_transport" where
  "ssl_transport_ctor host = \<lparr>m_ctx = NULL, m_ssl = NULL, m_opt_host = host, m_opt_port = 443\<rparr>"

text \<open>
  The end of \<open>init\<close>, which both branches reach when they have not returned: the
  cipher is logged, the socket is made non-blocking, the certificates are dumped and
  0 is returned.
\<close>

definition init_connected :: "env \<Rightarrow> world \<Rightarrow> ssl_transport \<Rightarrow> int \<Rightarrow> int \<times> ssl_transport \<times> world" where
  "init_connected E w t sock =
     (let w1 = after E (SSL_get_cipher (m_ssl t)) w;
          w2 = after E (LOG ''info: SSL connected using cipher (%s)'') w1;
          w3 = after E (sock_set_blocking sock False) w2;
          w4 = ssl_dump_certs E w3 (m_ssl t)
      in (0, t, w4))"

text \<open>
  \<open>ssl_transport::init\<close>. Every \<open>return -1\<close> of the source is a branch that ends
  in \<open>- 1\<close>; the members keep what was assigned to them before the return. The
  source chooses the method in an if / else-if / else whose last branch returns; the
  model tests for that last branch first and then chooses the method call. The
  result is the C return value, the object and the world.
\<close>

definition init :: "decls \<Rightarrow> env \<Rightarrow> world \<Rightarrow> ssl_transport \<Rightarrow> int \<Rightarrow> int \<times> ssl_transport \<times> world" where
  "init K E w t type =
     (let w1 = after E SSL_library_init w;
          w2 = after E OpenSSL_add_all_algorithms w1;
          w3 = after E SSL_load_error_strings w2
      in if type \<noteq> TPT_CLIENT K \<and> type \<noteq> TPT_SERVER K
         then (- 1, t, after E (LOG ''error: invalid transport type'') w3)
         else
           (let c4 = (if type = TPT_CLIENT K then TLSv1_client_method else TLSv1_server_method);
                method = ret (answer E c4 w3);
                w4 = after E c4 w3;
                c5 = SSL_CTX_new method;
                t1 = t\<lparr>m_ctx := ret (answer E c5 w4)\<rparr>;
                w5 = after E c5 w4
            in if m_ctx t1 = NULL
               then (- 1, t1, after E (LOG ''error: ssl failed to created new CTX'') w5)
               else
                 (case ssl_load_cert_bufs E w5 (m_ctx t1)
                         (crtbuf K) (crtbuf_len K) (keybuf K) (keybuf_len K) of
                    (r6, w6) \<Rightarrow>
                      if r6 < 0
                      then (- 1, t1, after E (LOG ''error: ssl failed to verify certificates'') w6)
                      else
                        (let w7 = after E (LOG ''info: SSL certificates verified'') w6;
                             c8 = SSL_new (m_ctx t1);
                             t2 = t1\<lparr>m_ssl := ret (answer E c8 w7)\<rparr>;
                             w8 = after E c8 w7
                         in if m_ssl t2 = NULL
                            then (- 1, t2, after E (LOG ''error: ssl failed to create session'') w8)
                            else if type = TPT_CLIENT K then
                              (let c9 = tcp_connect (m_opt_host t2) (m_opt_port t2);
                                   sock = ret (answer E c9 w8);
                                   w9 = after E c9 w8
                               in if sock < 0 then (- 1, t2, w9)
                                  else
                                    (let w10 = after E (SSL_set_fd (m_ssl t2) sock) w9;
                                         c11 = SSL_connect (m_ssl t2);
                                         w11 = after E c11 w10
                                     in if ret (answer E c11 w10) < 0
                                        then (- 1, t2, after E (LOG ''error: ssl connect failed'') w11)
                                        else init_connected E w11 t2 sock))
                            else if type = TPT_SERVER K then
                              (let w9 = after E (LOG ''info: c2 server at %s:%d'') w8;
                                   c10 = tcp_bind (m_opt_port t2);
                                   w10 = after E c10 w9
                               in if ret (answer E c10 w9) < 0 then (- 1, t2, w10)
                                  else
                                    (let w11 = after E (LOG ''info: waiting for client...'') w10;
                                         c12 = tcp_accept;
                                         sock = ret (answer E c12 w11);
                                         w12 = after E c12 w11
                                     in if sock < 0 then (- 1, t2, w12)
                                        else
                                          (let w13 = after E (SSL_set_fd (m_ssl t2) sock) w12;
                                               c14 = SSL_accept (m_ssl t2);
                                               w14 = after E c14 w13
                                           in if ret (answer E c14 w13) < 0
                                              then (- 1, t2, after E (LOG ''error: ssl accept failed'') w14)
                                              else init_connected E w14 t2 sock)))
                            else (- 1, t2, after E (LOG ''error: invalid transport type'') w8)))))"

subsection \<open>send\<close>

text \<open>
  The loop of \<open>ssl_transport::send\<close>. It runs for as long as \<open>SSL_write\<close> keeps
  \<open>bytes_sent\<close> below \<open>len\<close>, which an environment can do forever (a write that
  returns 0); a run that never returns is \<open>None\<close>. The buffer argument is the part of
  the message from \<open>msg.data() + bytes_sent\<close> on. When \<open>bytes_sent\<close> is negative the
  C pointer lies before the message; the model then passes the whole message.
\<close>

partial_function (option) send_loop ::
  "env \<Rightarrow> ptr \<Rightarrow> byte list \<Rightarrow> int \<Rightarrow> int \<Rightarrow> world \<Rightarrow> (int \<times> world) option" where
  "send_loop E ssl buf len bytes_sent w =
     (if bytes_sent < len then
        (let c = SSL_write ssl (drop (nat bytes_sent) buf) (len - bytes_sent);
             bytes = ret (answer E c w);
             w1 = after E c w
         in if bytes = - 1
            then Some (- 1, after E (LOG ''error: SSL transport failed to send message!'') w1)
            else send_loop E ssl buf len (bytes_sent + bytes) w1)
      else Some (bytes_sent, w))"

definition send :: "decls \<Rightarrow> env \<Rightarrow> world \<Rightarrow> ssl_transport \<Rightarrow> message \<Rightarrow> (int \<times> world) option" where
  "send K E w t msg = send_loop E (m_ssl t) (data msg) (data_len K msg) 0 w"

subsection \<open>close and the destructor\<close>

text \<open>\<open>ssl_transport::close\<close> returns nothing; the model returns the object and the world.\<close>

definition close :: "env \<Rightarrow> world \<Rightarrow> ssl_transport \<Rightarrow> ssl_transport \<times> world" where
  "close E w t =
     (let (t1, w1) =
            (if m_ssl t \<noteq> NULL
             then (t\<lparr>m_ssl := NULL\<rparr>,
                   after E (SSL_free (m_ssl t)) (after E (SSL_shutdown (m_ssl t)) w))
             else (t, w));
          (t2, w2) =
            (if m_ctx t1 \<noteq> NULL
             then (t1\<lparr>m_ctx := NULL\<rparr>, after E (SSL_CTX_free (m_ctx t1)) w1)
             else (t1, w1))
      in (t2, after E tcp_close w2))"

definition ssl_transport_dtor :: "env \<Rightarrow> world \<Rightarrow> ssl_transport \<Rightarrow> ssl_transport \<times> world" where
  "ssl_transport_dtor E w t = close E w t"

subsection \<open>What a run did with the stream\<close>

text \<open>
  The calls of \<open>init\<close> that the claims about roles and blocking mode speak of: the
  three stream calls, the two handshakes, and the switch of the socket to
  non-blocking mode (\<open>sock_set_blocking(sock, false)\<close>).
\<close>

datatype phase = Connect | Bind | Accept | HandshakeConnect | HandshakeAccept | NonBlocking

definition phase_of :: "call \<Rightarrow> phase list" where
  "phase_of c =
     (case c of
        tcp_connect h p \<Rightarrow> [Connect]
      | tcp_bind p \<Rightarrow> [Bind]
      | tcp_accept \<Rightarrow> [Accept]
      | SSL_connect s \<Rightarrow> [HandshakeConnect]
      | SSL_accept s \<Rightarrow> [HandshakeAccept]
      | sock_set_blocking s b \<Rightarrow> (if b then [] else [NonBlocking])
      | _ \<Rightarrow> [])"

definition phases :: "(call \<times> reply) list \<Rightarrow> phase list" where
  "phases tr = concat (map (\<lambda>e. phase_of (fst e)) tr)"

definition stream_events :: "(call \<times> reply) list \<Rightarrow> (call \<times> reply) list" where
  "stream_events tr = filter (\<lambda>e. phase_of (fst e) \<noteq> []) tr"

text \<open>
  OpenSSL documents the return value of \<open>SSL_connect\<close> and \<open>SSL_accept\<close> as: 1, the
  handshake was completed and a connection is established; 0, the handshake was not
  successful but was shut down in a controlled way; negative, the handshake was not
  successful because of a fatal error.
\<close>

definition handshake_completed :: "reply \<Rightarrow> bool" where
  "handshake_completed rep \<longleftrightarrow> ret rep = 1"

text \<open>
  The stream calls and handshakes in a trace that have returned a negative value
  (the switch to non-blocking mode returns nothing and is not looked at).
\<close>

definition negative_steps :: "(call \<times> reply) list \<Rightarrow> (call \<times> reply) list" where
  "negative_steps tr =
     filter (\<lambda>e. phase_of (fst e) \<noteq> [] \<and> phase_of (fst e) \<noteq> [NonBlocking] \<and> ret (snd e) < 0) tr"

text \<open>The handshakes in a trace that have returned the value \<open>v\<close>.\<close>

definition handshakes_returning :: "int \<Rightarrow> (call \<times> reply) list \<Rightarrow> (call \<times> reply) list" where
  "handshakes_returning v tr =
     filter (\<lambda>e. (phase_of (fst e) = [HandshakeConnect] \<or> phase_of (fst e) = [HandshakeAccept]) \<and>
                 ret (snd e) = v) tr"

subsection \<open>The claim about exact reads, as the spec words it\<close>

text \<open>
  "Read exactly \<open>headerLen\<close> bytes into the message's header region", "read exactly
  that many body bytes", "return the number of bytes obtained": in a run of \<open>recv\<close>
  that reads a body, the first read has obtained \<open>header_len\<close> bytes, the second as
  many bytes as the header says, and that number is returned.
\<close>

definition recv_reads_exactly :: "decls \<Rightarrow> env \<Rightarrow> world \<Rightarrow> ssl_transport \<Rightarrow> message \<Rightarrow> bool" where
  "recv_reads_exactly K E w t msg =
     (case recv K E w t msg of
        (r, msg', w') \<Rightarrow>
          (case added w w' of
             [(c1, r1), (c2, r2)] \<Rightarrow>
               ret r1 = int (header_len K) \<and> ret r2 = int (body_len K msg') \<and> r = ret r2
           | _ \<Rightarrow> True))"

subsection \<open>Concrete inputs\<close>

text \<open>
  Inputs on which the theorems are instantiated. The values of the constants and
  the header layout (the first header byte is the body length) are examples, not the
  values of core.h.
\<close>

definition demo_decls :: decls where
  "demo_decls =
     \<lparr>TPT_CLIENT = 1, TPT_SERVER = 2, TPT_CLOSE = - 2, TPT_EMPTY = - 3,
      header_len = 4,
      header_body_len = (\<lambda>h. case h of [] \<Rightarrow> 0 | b # _ \<Rightarrow> unat b),
      crtbuf = [67, 0], crtbuf_len = 1, keybuf = [75, 0], keybuf_len = 1\<rparr>"

definition w0 :: world where
  "w0 = \<lparr>clock = 0, trace = []\<rparr>"

definition fresh :: ssl_transport where
  "fresh = ssl_transport_ctor ''127.0.0.1''"

definition established :: ssl_transport where
  "established = \<lparr>m_ctx = 5, m_ssl = 7, m_opt_host = ''127.0.0.1'', m_opt_port = 8443\<rparr>"

definition hello :: message where
  "hello = \<lparr>hdr = [5, 0, 0, 0], bdy = [72, 69, 76, 76, 79]\<rparr>"

definition stale :: message where
  "stale = \<lparr>hdr = [9, 9, 9, 9], bdy = [1, 2, 3, 4, 5, 6]\<rparr>"

definition quiet :: reply where
  "quiet = \<lparr>ret = 0, payload = []\<rparr>"

text \<open>The peer has closed the connection: every read returns 0.\<close>

definition peer_closed :: env where
  "peer_closed k c = quiet"

text \<open>Nothing to read on the non-blocking socket: every read returns -1.\<close>

definition no_data :: env where
  "no_data k c = quiet\<lparr>ret := - 1\<rparr>"


text \<open>
  Two of the four header bytes arrive, then one of the three body bytes the header
  then describes.
\<close>

definition short_reads :: env where
  "short_reads k c =
     (if k = 0 then \<lparr>ret = 2, payload = [3, 0]\<rparr> else \<lparr>ret = 1, payload = [65]\<rparr>)"

text \<open>Every write transfers at most three bytes.\<close>

definition chunked_writes :: env where
  "chunked_writes k c = (case c of SSL_write s b n \<Rightarrow> quiet\<lparr>ret := min n 3\<rparr> | _ \<Rightarrow> quiet)"

text \<open>The first write returns -2; every later write transfers all it is given.\<close>

definition write_minus_two :: env where
  "write_minus_two k c =
     (case c of SSL_write s b n \<Rightarrow> quiet\<lparr>ret := (if k = 0 then - 2 else n)\<rparr> | _ \<Rightarrow> quiet)"

text \<open>
  Every set-up call succeeds, the stream calls succeed (sockets 3 and 4), the peer
  shows no certificate, and the handshake returns \<open>h\<close>.
\<close>

definition handshake_returns :: "int \<Rightarrow> env" where
  "handshake_returns h k c =
     (case c of
        SSL_connect s \<Rightarrow> quiet\<lparr>ret := h\<rparr>
      | SSL_accept s \<Rightarrow> quiet\<lparr>ret := h\<rparr>
      | tcp_connect host port \<Rightarrow> quiet\<lparr>ret := 3\<rparr>
      | tcp_bind port \<Rightarrow> quiet
      | tcp_accept \<Rightarrow> quiet\<lparr>ret := 4\<rparr>
      | SSL_get_peer_certificate s \<Rightarrow> quiet
      | _ \<Rightarrow> quiet\<lparr>ret := 1\<rparr>)"

section \<open>Basic facts\<close>

lemmas demo_defs = demo_decls_def w0_def fresh_def established_def hello_def stale_def quiet_def
  ssl_transport_ctor_def answer_def after_def Let_def

lemma clock_after [simp]: "clock (after E c w) = Suc (clock w)"
  by (simp add: after_def)

lemma trace_after [simp]: "trace (after E c w) = trace w @ [(c, E (clock w) c)]"
  by (simp add: after_def)

lemma added_same [simp]: "added w w = []"
  by (simp add: added_def)

lemma added_append: "trace w' = trace w @ new \<Longrightarrow> added w w' = new"
  by (simp add: added_def)

lemma length_bdy_resize [simp]: "length (bdy (resize n m)) = n"
  by (simp add: resize_def)

lemma hdr_resize [simp]: "hdr (resize n m) = hdr m"
  by (simp add: resize_def)

lemma body_len_resize [simp]: "body_len K (resize n m) = body_len K m"
  by (simp add: body_len_def)

lemma take_fill:
  "nat (ret r) \<le> length (payload r) \<Longrightarrow>
   take (nat (ret r)) (fill buf r) = take (nat (ret r)) (payload r)"
  by (simp add: fill_def)

lemma length_fill:
  "nat (ret r) \<le> length (payload r) \<Longrightarrow> nat (ret r) \<le> length buf \<Longrightarrow>
   length (fill buf r) = length buf"
  by (simp add: fill_def)

section \<open>recv\<close>

text \<open>
  C3. Whatever the environment, the world and the message: when the read of the header
  returns 0, \<open>recv\<close> returns \<open>TPT_CLOSE\<close>; when it returns a negative value, \<open>recv\<close>
  returns \<open>TPT_EMPTY\<close>. In both cases the header read is the only call made.
\<close>

theorem recv_closed_or_empty:
  "(ret (answer E (SSL_read (m_ssl t) (length (hdr msg)) (int (header_len K))) w) = 0 \<longrightarrow>
      fst (recv K E w t msg) = TPT_CLOSE K \<and>
      length (added w (snd (snd (recv K E w t msg)))) = 1) \<and>
   (ret (answer E (SSL_read (m_ssl t) (length (hdr msg)) (int (header_len K))) w) < 0 \<longrightarrow>
      fst (recv K E w t msg) = TPT_EMPTY K \<and>
      length (added w (snd (snd (recv K E w t msg)))) = 1)"
  by (simp add: recv_def Let_def added_def)

theorem recv_closed_or_empty_witness:
  "fst (recv demo_decls peer_closed w0 established stale) = - 2 \<and>
   fst (recv demo_decls no_data w0 established stale) = - 3"
  using recv_closed_or_empty [of peer_closed established stale demo_decls w0]
    recv_closed_or_empty [of no_data established stale demo_decls w0]
  by (simp add: peer_closed_def no_data_def demo_defs)



text \<open>
  C4. The claim expects \<open>recv\<close> to have read exactly \<open>header_len\<close> bytes before it
  derives the body length, and then exactly that many body bytes. \<open>recv\<close> issues one
  \<open>SSL_read\<close> for the header and one for the body and repeats neither when it comes
  back short, where \<open>send\<close> does loop over writes that come back short. Here two of
  the four header bytes arrive: \<open>recv\<close> goes on, derives the body length 3 from the
  two new and the two old header bytes, obtains one of the three body bytes and
  returns 1, with a body whose last two bytes are old.
\<close>

theorem recv_goes_on_after_short_reads:
  "recv demo_decls short_reads w0 established stale =
     (1, \<lparr>hdr = [3, 0, 9, 9], bdy = [65, 2, 3]\<rparr>,
      \<lparr>clock = 2, trace = [(SSL_read 7 4 4, \<lparr>ret = 2, payload = [3, 0]\<rparr>),
                           (SSL_read 7 3 3, \<lparr>ret = 1, payload = [65]\<rparr>)]\<rparr>) \<and>
   \<not> recv_reads_exactly demo_decls short_reads w0 established stale"
proof -
  have run: "recv demo_decls short_reads w0 established stale =
     (1, \<lparr>hdr = [3, 0, 9, 9], bdy = [65, 2, 3]\<rparr>,
      \<lparr>clock = 2, trace = [(SSL_read 7 4 4, \<lparr>ret = 2, payload = [3, 0]\<rparr>),
                           (SSL_read 7 3 3, \<lparr>ret = 1, payload = [65]\<rparr>)]\<rparr>)"
    by (simp add: recv_def body_len_def resize_def fill_def short_reads_def demo_defs)
  then have "\<not> recv_reads_exactly demo_decls short_reads w0 established stale"
    by (simp add: recv_reads_exactly_def added_def w0_def demo_decls_def)
  with run show ?thesis
    by simp
qed

text \<open>
  The runs of \<open>recv\<close> in which the read of the header returns a positive count, in
  any environment: whatever that count is, exactly one more call is made, a read
  for the body, and \<open>recv\<close> returns what that read returns, whatever it is. No
  read is repeated.
\<close>

lemma recv_never_repeats_a_read:
  assumes "0 < ret (answer E (SSL_read (m_ssl t) (length (hdr msg)) (int (header_len K))) w)"
  shows "(let c1 = SSL_read (m_ssl t) (length (hdr msg)) (int (header_len K));
              r1 = answer E c1 w;
              n = header_body_len K (fill (hdr msg) r1);
              c2 = SSL_read (m_ssl t) n (int n);
              r2 = answer E c2 (after E c1 w);
              msg' = fst (snd (recv K E w t msg))
          in added w (snd (snd (recv K E w t msg))) = [(c1, r1), (c2, r2)] \<and>
             fst (recv K E w t msg) = ret r2 \<and>
             hdr msg' = fill (hdr msg) r1 \<and>
             (ret r2 \<le> int n \<and> nat (ret r2) \<le> length (payload r2) \<longrightarrow>
                length (bdy msg') = n \<and>
                take (nat (ret r2)) (bdy msg') = take (nat (ret r2)) (payload r2)))"
proof -
  let ?c1 = "SSL_read (m_ssl t) (length (hdr msg)) (int (header_len K))"
  let ?r1 = "answer E ?c1 w"
  let ?n = "header_body_len K (fill (hdr msg) ?r1)"
  let ?c2 = "SSL_read (m_ssl t) ?n (int ?n)"
  let ?r2 = "answer E ?c2 (after E ?c1 w)"
  let ?m2 = "resize ?n (msg\<lparr>hdr := fill (hdr msg) ?r1\<rparr>)"
  have run: "recv K E w t msg =
      (ret ?r2, ?m2\<lparr>bdy := fill (bdy ?m2) ?r2\<rparr>, after E ?c2 (after E ?c1 w))"
    using assms by (simp add: recv_def Let_def body_len_def)
  have tr: "added w (after E ?c2 (after E ?c1 w)) = [(?c1, ?r1), (?c2, ?r2)]"
    by (simp add: answer_def added_def)
  have len: "length (bdy ?m2) = ?n"
    by simp
  have body: "ret ?r2 \<le> int ?n \<Longrightarrow> nat (ret ?r2) \<le> length (payload ?r2) \<Longrightarrow>
      length (fill (bdy ?m2) ?r2) = ?n \<and>
      take (nat (ret ?r2)) (fill (bdy ?m2) ?r2) = take (nat (ret ?r2)) (payload ?r2)"
    using len by (simp add: take_fill length_fill)
  show ?thesis
    unfolding Let_def run using tr body by simp
qed

section \<open>send\<close>

text \<open>
  The loop, started with \<open>bytes_sent\<close> between 0 and \<open>len\<close>, in an environment where
  every write transfers at least one byte and at most the bytes requested: it
  returns, the value returned is \<open>len\<close>, the calls it has made are writes, and the
  counts they returned add up to what was left to send. The induction is on the
  number of bytes left.
\<close>

lemma send_loop_completes:
  assumes ok: "\<forall>k b n. 0 < n \<longrightarrow>
                 0 < ret (E k (SSL_write ssl b n)) \<and> ret (E k (SSL_write ssl b n)) \<le> n"
  shows "0 \<le> bs \<Longrightarrow> bs \<le> len \<Longrightarrow>
         \<exists>w' new. send_loop E ssl buf len bs w = Some (len, w') \<and>
           trace w' = trace w @ new \<and>
           sum_list (map (\<lambda>e. ret (snd e)) new) = len - bs \<and>
           (\<forall>e\<in>set new. \<exists>b n. fst e = SSL_write ssl b n)"
proof (induction "nat (len - bs)" arbitrary: bs w rule: less_induct)
  case less
  show ?case
  proof (cases "bs < len")
    case False
    with less.prems have "bs = len"
      by simp
    have "send_loop E ssl buf len len w = Some (len, w)"
      by (subst send_loop.simps) simp
    with \<open>bs = len\<close> have "send_loop E ssl buf len bs w = Some (len, w) \<and>
        trace w = trace w @ [] \<and>
        sum_list (map (\<lambda>e. ret (snd e)) []) = len - bs \<and>
        (\<forall>e\<in>set []. \<exists>b n. fst e = SSL_write ssl b n)"
      by simp
    then show ?thesis
      by blast
  next
    case True
    let ?c = "SSL_write ssl (drop (nat bs) buf) (len - bs)"
    let ?r = "ret (answer E ?c w)"
    let ?w1 = "after E ?c w"
    from True ok have r: "0 < ?r" "?r \<le> len - bs"
      by (simp_all add: answer_def)
    then have step: "send_loop E ssl buf len bs w = send_loop E ssl buf len (bs + ?r) ?w1"
      using True by (subst send_loop.simps) (simp add: Let_def)
    from r less.prems
    have "nat (len - (bs + ?r)) < nat (len - bs)" "0 \<le> bs + ?r" "bs + ?r \<le> len"
      by simp_all
    from less.hyps [OF this]
    obtain w' new where rest: "send_loop E ssl buf len (bs + ?r) ?w1 = Some (len, w')"
        "trace w' = trace ?w1 @ new"
        "sum_list (map (\<lambda>e. ret (snd e)) new) = len - (bs + ?r)"
        "\<forall>e\<in>set new. \<exists>b n. fst e = SSL_write ssl b n"
      by blast
    let ?new = "(?c, answer E ?c w) # new"
    show ?thesis
    proof (intro exI conjI)
      show "send_loop E ssl buf len bs w = Some (len, w')"
        using step rest(1) by simp
      show "trace w' = trace w @ ?new"
        using rest(2) by (simp add: answer_def)
      show "sum_list (map (\<lambda>e. ret (snd e)) ?new) = len - bs"
        using rest(3) by simp
      show "\<forall>e\<in>set ?new. \<exists>b n. fst e = SSL_write ssl b n"
        using rest(4) by simp
    qed
  qed
qed

text \<open>
  C2. In an environment where every write call succeeds, transferring at least one
  byte and at most the bytes requested, \<open>send\<close> returns (the loop ends), the value it
  returns is the full serialized length of the message, every call it has made is a
  write, and the byte counts the writes returned add up to that length.
\<close>

theorem send_writes_everything:
  assumes "\<forall>k b n. 0 < n \<longrightarrow>
             0 < ret (E k (SSL_write (m_ssl t) b n)) \<and> ret (E k (SSL_write (m_ssl t) b n)) \<le> n"
  shows "\<exists>w'. send K E w t msg = Some (data_len K msg, w') \<and>
           sum_list (map (\<lambda>e. ret (snd e)) (added w w')) = data_len K msg \<and>
           (\<forall>e\<in>set (added w w'). \<exists>b n. fst e = SSL_write (m_ssl t) b n)"
proof -
  have "0 \<le> data_len K msg"
    by (simp add: data_len_def)
  from send_loop_completes [where bs = 0 and len = "data_len K msg" and buf = "data msg" and w = w,
      OF assms _ this]
  obtain w' new where
      "send_loop E (m_ssl t) (data msg) (data_len K msg) 0 w = Some (data_len K msg, w')"
      "trace w' = trace w @ new"
      "sum_list (map (\<lambda>e. ret (snd e)) new) = data_len K msg"
      "\<forall>e\<in>set new. \<exists>b n. fst e = SSL_write (m_ssl t) b n"
    by auto
  then show ?thesis
    by (auto simp: send_def added_append)
qed

theorem send_writes_everything_witness:
  "\<exists>w'. send demo_decls chunked_writes w0 established hello = Some (9, w') \<and>
         map (\<lambda>e. ret (snd e)) (added w0 w') = [3, 3, 3]"
proof -
  have h: "\<forall>k b n. 0 < n \<longrightarrow>
      0 < ret (chunked_writes k (SSL_write (m_ssl established) b n)) \<and>
      ret (chunked_writes k (SSL_write (m_ssl established) b n)) \<le> n"
    by (simp add: chunked_writes_def quiet_def)
  have run: "send demo_decls chunked_writes w0 established hello =
     Some (9, \<lparr>clock = 3, trace =
       [(SSL_write 7 [5, 0, 0, 0, 72, 69, 76, 76, 79] 9, \<lparr>ret = 3, payload = []\<rparr>),
        (SSL_write 7 [0, 72, 69, 76, 76, 79] 6, \<lparr>ret = 3, payload = []\<rparr>),
        (SSL_write 7 [76, 76, 79] 3, \<lparr>ret = 3, payload = []\<rparr>)]\<rparr>)"
    by (simp add: send_def send_loop.simps data_len_def body_len_def data_def
        chunked_writes_def demo_defs)
  from send_writes_everything [OF h, of demo_decls w0 hello] run show ?thesis
    by (simp add: added_def w0_def)
qed

text \<open>
  C5. The claim expects every negative result of a write to end \<open>send\<close> with the
  error. The loop compares the result with \<open>-1\<close> only. Here the first write returns
  \<open>-2\<close>: the loop adds it to \<open>bytes_sent\<close>, issues a second write that asks for two
  bytes more than the message holds, and \<open>send\<close> returns 9, the length of the message,
  as after a complete transfer.
\<close>

theorem send_ignores_minus_two:
  "send demo_decls write_minus_two w0 established hello =
     Some (9, \<lparr>clock = 2, trace =
       [(SSL_write 7 [5, 0, 0, 0, 72, 69, 76, 76, 79] 9, \<lparr>ret = - 2, payload = []\<rparr>),
        (SSL_write 7 [5, 0, 0, 0, 72, 69, 76, 76, 79] 11, \<lparr>ret = 11, payload = []\<rparr>)]\<rparr>)"
  by (simp add: send_def send_loop.simps data_len_def body_len_def data_def
      write_minus_two_def demo_defs)

text \<open>
  A first write that returns \<open>-1\<close> does end \<open>send\<close> at once, with \<open>-1\<close>, after the
  write and the log call. Any other result, negative or not, is added to \<open>bytes_sent\<close>
  and the loop goes on.
\<close>

lemma send_minus_one:
  assumes "0 < data_len K msg"
    and "ret (answer E (SSL_write (m_ssl t) (data msg) (data_len K msg)) w) = - 1"
  shows "\<exists>w'. send K E w t msg = Some (- 1, w') \<and> length (added w w') = 2"
  using assms unfolding send_def
  by (subst send_loop.simps) (simp add: Let_def added_def)

lemma send_other_result_goes_on:
  assumes "0 < data_len K msg"
    and "ret (answer E (SSL_write (m_ssl t) (data msg) (data_len K msg)) w) = r"
    and "r \<noteq> - 1"
  shows "send K E w t msg =
     send_loop E (m_ssl t) (data msg) (data_len K msg) r
       (after E (SSL_write (m_ssl t) (data msg) (data_len K msg)) w)"
  using assms unfolding send_def
  by (subst send_loop.simps) (simp add: Let_def)

section \<open>close\<close>

text \<open>
  C9. From any state of the object: after \<open>close\<close> both \<open>m_ssl\<close> and \<open>m_ctx\<close> are
  \<open>NULL\<close> and the options are unchanged; the calls made are the shutdown and the
  release of the session if there was one, then the release of the context if there
  was one, then the close of the stream, last. A second \<open>close\<close>, or the destructor,
  run on the result leaves the object as it is and makes one call, the close of the
  stream. \<open>close\<close> has no return value and no failing branch.
\<close>

theorem close_idempotent:
  "(let t' = fst (close E w t); w' = snd (close E w t)
    in m_ssl t' = NULL \<and> m_ctx t' = NULL \<and>
       m_opt_host t' = m_opt_host t \<and> m_opt_port t' = m_opt_port t \<and>
       map fst (added w w') =
         (if m_ssl t \<noteq> NULL then [SSL_shutdown (m_ssl t), SSL_free (m_ssl t)] else []) @
         (if m_ctx t \<noteq> NULL then [SSL_CTX_free (m_ctx t)] else []) @ [tcp_close] \<and>
       fst (close E w' t') = t' \<and>
       map fst (added w' (snd (close E w' t'))) = [tcp_close] \<and>
       fst (ssl_transport_dtor E w' t') = t' \<and>
       map fst (added w' (snd (ssl_transport_dtor E w' t'))) = [tcp_close])"
  by (simp add: close_def ssl_transport_dtor_def Let_def added_def)

theorem close_idempotent_witness:
  "map fst (added w0 (snd (close peer_closed w0 established))) =
     [SSL_shutdown 7, SSL_free 7, SSL_CTX_free 5, tcp_close] \<and>
   map fst (added (snd (close peer_closed w0 established))
      (snd (close peer_closed (snd (close peer_closed w0 established))
              (fst (close peer_closed w0 established))))) = [tcp_close] \<and>
   map fst (added w0 (snd (close peer_closed w0 fresh))) = [tcp_close]"
  using close_idempotent [of peer_closed w0 established] close_idempotent [of peer_closed w0 fresh]
  by (simp add: Let_def established_def fresh_def ssl_transport_ctor_def)

section \<open>ssl_load_cert_bufs\<close>

text \<open>
  C10. Two calls of \<open>ssl_load_cert_bufs\<close> that differ only in \<open>crt_len\<close> and \<open>key_len\<close>
  return the same value and leave the same world, so the same calls have been made
  on the context. The first four calls are always the two memory BIOs, each created
  with length \<open>-1\<close> (OpenSSL then takes the buffer to end at the first NUL byte), and
  the two PEM readers.
\<close>

theorem ssl_load_cert_bufs_ignores_lengths:
  "ssl_load_cert_bufs E w ctx crt_buf crt_len key_buf key_len =
     ssl_load_cert_bufs E w ctx crt_buf crt_len' key_buf key_len' \<and>
   (let cbio = ret (E (clock w) (BIO_new_mem_buf crt_buf (- 1)));
        kbio = ret (E (clock w + 2) (BIO_new_mem_buf key_buf (- 1)))
    in map fst (take 4 (added w (snd (ssl_load_cert_bufs E w ctx crt_buf crt_len key_buf key_len)))) =
       [BIO_new_mem_buf crt_buf (- 1), PEM_read_bio_X509 cbio,
        BIO_new_mem_buf key_buf (- 1), PEM_read_bio_RSAPrivateKey kbio])"
  by (simp add: ssl_load_cert_bufs_def Let_def added_def answer_def)

theorem ssl_load_cert_bufs_ignores_lengths_witness:
  "ssl_load_cert_bufs (handshake_returns 1) w0 5 [67, 0] 1 [75, 0] 1 =
     ssl_load_cert_bufs (handshake_returns 1) w0 5 [67, 0] 2 [75, 0] 0"
  using ssl_load_cert_bufs_ignores_lengths [of "handshake_returns 1" w0 5 "[67, 0]" 1 "[75, 0]" 1 2 0]
  by simp

section \<open>init\<close>

lemma phases_append [simp]: "phases (xs @ ys) = phases xs @ phases ys"
  by (simp add: phases_def)

lemma phases_Nil [simp]: "phases [] = []"
  by (simp add: phases_def)

lemma phases_Cons [simp]: "phases (e # es) = phase_of (fst e) @ phases es"
  by (simp add: phases_def)

lemma negative_steps_append [simp]:
  "negative_steps (xs @ ys) = negative_steps xs @ negative_steps ys"
  by (simp add: negative_steps_def)

lemma negative_steps_Nil [simp]: "negative_steps [] = []"
  by (simp add: negative_steps_def)

lemma negative_steps_Cons [simp]:
  "negative_steps (e # es) =
     (if phase_of (fst e) \<noteq> [] \<and> phase_of (fst e) \<noteq> [NonBlocking] \<and> ret (snd e) < 0
      then [e] else []) @ negative_steps es"
  by (simp add: negative_steps_def)

lemma handshakes_returning_append [simp]:
  "handshakes_returning v (xs @ ys) = handshakes_returning v xs @ handshakes_returning v ys"
  by (simp add: handshakes_returning_def)

lemma handshakes_returning_Nil [simp]: "handshakes_returning v [] = []"
  by (simp add: handshakes_returning_def)

lemma handshakes_returning_Cons [simp]:
  "handshakes_returning v (e # es) =
     (if (phase_of (fst e) = [HandshakeConnect] \<or> phase_of (fst e) = [HandshakeAccept]) \<and>
         ret (snd e) = v
      then [e] else []) @ handshakes_returning v es"
  by (simp add: handshakes_returning_def)

text \<open>The two functions \<open>init\<close> calls only add to the trace, and add no stream call.\<close>

lemma load_cert_grows [simp]:
  "prefix xs (trace w) \<Longrightarrow> prefix xs (trace (snd (ssl_load_cert_bufs E w ctx cb cl kb kl)))"
  by (simp add: ssl_load_cert_bufs_def Let_def)

lemma load_cert_phases [simp]:
  "phases (trace (snd (ssl_load_cert_bufs E w ctx cb cl kb kl))) = phases (trace w)"
  by (simp add: ssl_load_cert_bufs_def Let_def phase_of_def)

lemma load_cert_steps [simp]:
  "negative_steps (trace (snd (ssl_load_cert_bufs E w ctx cb cl kb kl))) =
     negative_steps (trace w)"
  by (simp add: ssl_load_cert_bufs_def Let_def phase_of_def)

lemma load_cert_handshakes [simp]:
  "handshakes_returning v (trace (snd (ssl_load_cert_bufs E w ctx cb cl kb kl))) =
     handshakes_returning v (trace w)"
  by (simp add: ssl_load_cert_bufs_def Let_def phase_of_def)

lemma dump_certs_grows [simp]:
  "prefix xs (trace w) \<Longrightarrow> prefix xs (trace (ssl_dump_certs E w ssl))"
  by (simp add: ssl_dump_certs_def Let_def)

lemma dump_certs_phases [simp]:
  "phases (trace (ssl_dump_certs E w ssl)) = phases (trace w)"
  by (simp add: ssl_dump_certs_def Let_def phase_of_def)

lemma dump_certs_steps [simp]:
  "negative_steps (trace (ssl_dump_certs E w ssl)) = negative_steps (trace w)"
  by (simp add: ssl_dump_certs_def Let_def phase_of_def)

lemma dump_certs_handshakes [simp]:
  "handshakes_returning v (trace (ssl_dump_certs E w ssl)) = handshakes_returning v (trace w)"
  by (simp add: ssl_dump_certs_def Let_def phase_of_def)

text \<open>
  What a run has added to the trace, seen through a function that distributes over
  append.
\<close>

lemma added_split:
  assumes "prefix (trace w) (trace w')"
    and "\<And>xs ys. f (xs @ ys) = f xs @ f ys"
  shows "f (trace w') = f (trace w) @ f (added w w')"
proof -
  from assms(1) obtain new where "trace w' = trace w @ new"
    by (auto simp: prefix_def)
  then show ?thesis
    by (simp add: added_def assms(2))
qed

lemmas phases_split = added_split [where f = phases, OF _ phases_append]

lemmas negative_steps_split = added_split [where f = negative_steps, OF _ negative_steps_append]

lemmas handshakes_split =
  added_split [where f = "handshakes_returning v" for v, OF _ handshakes_returning_append]

text \<open>
  The proofs about \<open>init\<close> go through its returns, role by role: the role decides
  the method call at the start, so it is fixed first.
\<close>

lemmas init_unfold = init_def init_connected_def Let_def split_def phase_of_def

lemma init_roles:
  obtains (client) "type = TPT_CLIENT K"
  | (server) "type \<noteq> TPT_CLIENT K" "type = TPT_SERVER K"
  | (other) "type \<noteq> TPT_CLIENT K" "type \<noteq> TPT_SERVER K"
  by blast

lemma init_grows: "prefix (trace w) (trace (snd (snd (init K E w t type))))"
proof (cases type K rule: init_roles)
  case client
  then show ?thesis by (simp add: init_unfold)
next
  case server
  then show ?thesis by (simp add: init_unfold)
next
  case other
  then show ?thesis by (simp add: init_unfold)
qed

text \<open>
  The paths of \<open>init\<close>, by what they do with the stream. Each line is a return of
  the source: the returns before the branch, then the returns of the branch, then
  the end of the function.
\<close>

lemma init_client_paths:
  assumes "type = TPT_CLIENT K"
  shows "(fst (init K E w t type) = - 1 \<and>
          (phases (trace (snd (snd (init K E w t type)))) = phases (trace w) \<or>
           phases (trace (snd (snd (init K E w t type)))) = phases (trace w) @ [Connect] \<or>
           phases (trace (snd (snd (init K E w t type)))) =
             phases (trace w) @ [Connect, HandshakeConnect])) \<or>
         (fst (init K E w t type) = 0 \<and>
          phases (trace (snd (snd (init K E w t type)))) =
            phases (trace w) @ [Connect, HandshakeConnect, NonBlocking])"
  using assms by (simp add: init_unfold)

lemma init_server_paths:
  assumes "type \<noteq> TPT_CLIENT K" "type = TPT_SERVER K"
  shows "(fst (init K E w t type) = - 1 \<and>
          (phases (trace (snd (snd (init K E w t type)))) = phases (trace w) \<or>
           phases (trace (snd (snd (init K E w t type)))) = phases (trace w) @ [Bind] \<or>
           phases (trace (snd (snd (init K E w t type)))) = phases (trace w) @ [Bind, Accept] \<or>
           phases (trace (snd (snd (init K E w t type)))) =
             phases (trace w) @ [Bind, Accept, HandshakeAccept])) \<or>
         (fst (init K E w t type) = 0 \<and>
          phases (trace (snd (snd (init K E w t type)))) =
            phases (trace w) @ [Bind, Accept, HandshakeAccept, NonBlocking])"
  using assms by (simp add: init_unfold)

lemma init_invalid_type:
  assumes "type \<noteq> TPT_CLIENT K" "type \<noteq> TPT_SERVER K"
  shows "fst (init K E w t type) = - 1 \<and>
         phases (trace (snd (snd (init K E w t type)))) = phases (trace w)"
  using assms by (simp add: init_unfold)

text \<open>
  C8. With distinct role constants: a client \<open>init\<close> makes, of the stream calls and
  handshakes, only the stream connect and then the connect-side handshake, in this
  order (a run that returns early makes an initial part of them), and a client
  \<open>init\<close> that returns 0 has made both; a server \<open>init\<close> makes only bind, accept and
  then the accept-side handshake, and has made all three when it returns 0; with any
  other role value \<open>init\<close> returns \<open>-1\<close> and makes no stream call and no handshake.
\<close>

theorem init_role_dispatch:
  assumes "TPT_CLIENT K \<noteq> TPT_SERVER K"
  shows "(type = TPT_CLIENT K \<longrightarrow>
            prefix (phases (added w (snd (snd (init K E w t type)))))
              [Connect, HandshakeConnect, NonBlocking] \<and>
            (fst (init K E w t type) = 0 \<longrightarrow>
               phases (added w (snd (snd (init K E w t type)))) =
                 [Connect, HandshakeConnect, NonBlocking])) \<and>
         (type = TPT_SERVER K \<longrightarrow>
            prefix (phases (added w (snd (snd (init K E w t type)))))
              [Bind, Accept, HandshakeAccept, NonBlocking] \<and>
            (fst (init K E w t type) = 0 \<longrightarrow>
               phases (added w (snd (snd (init K E w t type)))) =
                 [Bind, Accept, HandshakeAccept, NonBlocking])) \<and>
         (type \<noteq> TPT_CLIENT K \<and> type \<noteq> TPT_SERVER K \<longrightarrow>
            fst (init K E w t type) = - 1 \<and>
            phases (added w (snd (snd (init K E w t type)))) = [])"
proof -
  let ?P = "phases (added w (snd (snd (init K E w t type))))"
  note split = phases_split [OF init_grows [of w K E t type]]
  have client: "prefix ?P [Connect, HandshakeConnect, NonBlocking] \<and>
      (fst (init K E w t type) = 0 \<longrightarrow> ?P = [Connect, HandshakeConnect, NonBlocking])"
    if "type = TPT_CLIENT K"
    using init_client_paths [OF that, of E w t] by (auto simp: split)
  have server: "prefix ?P [Bind, Accept, HandshakeAccept, NonBlocking] \<and>
      (fst (init K E w t type) = 0 \<longrightarrow> ?P = [Bind, Accept, HandshakeAccept, NonBlocking])"
    if "type = TPT_SERVER K"
  proof -
    from that assms have "type \<noteq> TPT_CLIENT K"
      by simp
    from init_server_paths [OF this that, of E w t] show ?thesis
      by (auto simp: split)
  qed
  have other: "fst (init K E w t type) = - 1 \<and> ?P = []"
    if "type \<noteq> TPT_CLIENT K" "type \<noteq> TPT_SERVER K"
    using init_invalid_type [OF that, of E w t] by (simp add: split)
  from client server other show ?thesis
    by blast
qed

lemmas init_defs = init_def init_connected_def ssl_load_cert_bufs_def ssl_dump_certs_def
  handshake_returns_def

theorem init_role_dispatch_witness:
  "TPT_CLIENT demo_decls \<noteq> TPT_SERVER demo_decls \<and>
   phases (added w0 (snd (snd (init demo_decls (handshake_returns 1) w0 fresh 1)))) =
     [Connect, HandshakeConnect, NonBlocking] \<and>
   phases (added w0 (snd (snd (init demo_decls (handshake_returns 1) w0 fresh 2)))) =
     [Bind, Accept, HandshakeAccept, NonBlocking] \<and>
   fst (init demo_decls (handshake_returns 1) w0 fresh 7) = - 1 \<and>
   phases (added w0 (snd (snd (init demo_decls (handshake_returns 1) w0 fresh 7)))) = []"
proof -
  have d: "TPT_CLIENT demo_decls \<noteq> TPT_SERVER demo_decls"
    by (simp add: demo_decls_def)
  have c: "fst (init demo_decls (handshake_returns 1) w0 fresh 1) = 0"
    by (simp add: init_defs demo_defs)
  have s: "fst (init demo_decls (handshake_returns 1) w0 fresh 2) = 0"
    by (simp add: init_defs demo_defs)
  from init_role_dispatch [where K = demo_decls and E = "handshake_returns 1" and w = w0
      and t = fresh and type = 1, OF d]
    init_role_dispatch [where K = demo_decls and E = "handshake_returns 1" and w = w0
      and t = fresh and type = 2, OF d]
    init_role_dispatch [where K = demo_decls and E = "handshake_returns 1" and w = w0
      and t = fresh and type = 7, OF d]
    c s d
  show ?thesis
    by (simp add: demo_decls_def)
qed

text \<open>
  What \<open>init\<close> does check: when it returns 0, no stream call and no handshake it made
  has returned a negative value. So a negative result of connect, bind, accept or of
  a handshake always makes \<open>init\<close> return \<open>-1\<close>.
\<close>

lemma init_success_steps:
  assumes "fst (init K E w t type) = 0"
  shows "negative_steps (added w (snd (snd (init K E w t type)))) = []"
proof -
  have "fst (init K E w t type) = 0 \<longrightarrow>
      negative_steps (trace (snd (snd (init K E w t type)))) = negative_steps (trace w)"
  proof (cases type K rule: init_roles)
    case client
    then show ?thesis by (simp add: init_unfold answer_def)
  next
    case server
    then show ?thesis by (simp add: init_unfold answer_def)
  next
    case other
    then show ?thesis by (simp add: init_unfold)
  qed
  with assms show ?thesis
    by (simp add: negative_steps_split [OF init_grows [of w K E t type]])
qed

text \<open>
  What \<open>init\<close> does not check: whatever the environment and the role, a run of
  \<open>init\<close> in which a handshake has returned 0 returns 0.
\<close>

lemma init_handshake_zero_accepted:
  assumes "handshakes_returning 0 (added w (snd (snd (init K E w t type)))) \<noteq> []"
  shows "fst (init K E w t type) = 0"
proof -
  have "fst (init K E w t type) \<noteq> 0 \<longrightarrow>
      handshakes_returning 0 (trace (snd (snd (init K E w t type)))) =
        handshakes_returning 0 (trace w)"
  proof (cases type K rule: init_roles)
    case client
    then show ?thesis by (simp add: init_unfold answer_def)
  next
    case server
    then show ?thesis by (simp add: init_unfold answer_def)
  next
    case other
    then show ?thesis by (simp add: init_unfold)
  qed
  with assms show ?thesis
    by (auto simp: handshakes_split [OF init_grows [of w K E t type]])
qed

text \<open>
  The switch to non-blocking mode is made at most once, as the last of the stream
  calls, after the handshake of the role, and only by a run that returns 0.
\<close>

lemma init_nonblocking_last:
  assumes "NonBlocking \<in> set (phases (added w (snd (snd (init K E w t type)))))"
  shows "fst (init K E w t type) = 0 \<and>
         (phases (added w (snd (snd (init K E w t type)))) = [Connect, HandshakeConnect, NonBlocking] \<or>
          phases (added w (snd (snd (init K E w t type)))) = [Bind, Accept, HandshakeAccept, NonBlocking])"
proof -
  note split = phases_split [OF init_grows [of w K E t type]]
  show ?thesis
  proof (cases type K rule: init_roles)
    case client
    from init_client_paths [OF client, of E w t] assms show ?thesis
      by (auto simp: split)
  next
    case server
    from init_server_paths [OF server, of E w t] assms show ?thesis
      by (auto simp: split)
  next
    case other
    from init_invalid_type [OF other, of E w t] assms show ?thesis
      by (simp add: split)
  qed
qed

text \<open>
  C6. The claim expects \<open>init\<close> to return an error whenever the handshake fails. The
  source tests the result of \<open>SSL_connect\<close> and \<open>SSL_accept\<close> with \<open>< 0\<close>, while
  \<open>ssl_load_cert_bufs\<close> tests the results of OpenSSL with \<open><= 0\<close>. Here the client
  handshake returns 0, the documented result of a handshake that did not succeed:
  \<open>init\<close> returns 0, the session stays in \<open>m_ssl\<close> and the socket is made
  non-blocking.
\<close>

theorem init_accepts_failed_connect_handshake:
  "fst (init demo_decls (handshake_returns 0) w0 fresh (TPT_CLIENT demo_decls)) = 0 \<and>
   m_ssl (fst (snd (init demo_decls (handshake_returns 0) w0 fresh (TPT_CLIENT demo_decls)))) = 1 \<and>
   stream_events (trace (snd (snd (init demo_decls (handshake_returns 0) w0 fresh (TPT_CLIENT demo_decls))))) =
     [(tcp_connect ''127.0.0.1'' 443, \<lparr>ret = 3, payload = []\<rparr>),
      (SSL_connect 1, \<lparr>ret = 0, payload = []\<rparr>),
      (sock_set_blocking 3 False, \<lparr>ret = 1, payload = []\<rparr>)] \<and>
   \<not> handshake_completed \<lparr>ret = 0, payload = []\<rparr>"
  by (simp add: init_defs stream_events_def phase_of_def handshake_completed_def demo_defs)

text \<open>
  C7. The claim expects the switch to non-blocking mode only after a handshake that
  completed successfully. By the same test \<open>< 0\<close>, here on the server side: the
  accept-side handshake returns 0, it has not completed, and \<open>init\<close> goes on to make
  the accepted socket non-blocking and returns 0.
\<close>

theorem init_nonblocking_after_failed_accept_handshake:
  "fst (init demo_decls (handshake_returns 0) w0 fresh (TPT_SERVER demo_decls)) = 0 \<and>
   stream_events (trace (snd (snd (init demo_decls (handshake_returns 0) w0 fresh (TPT_SERVER demo_decls))))) =
     [(tcp_bind 443, \<lparr>ret = 0, payload = []\<rparr>),
      (tcp_accept, \<lparr>ret = 4, payload = []\<rparr>),
      (SSL_accept 1, \<lparr>ret = 0, payload = []\<rparr>),
      (sock_set_blocking 4 False, \<lparr>ret = 1, payload = []\<rparr>)] \<and>
   \<not> handshake_completed \<lparr>ret = 0, payload = []\<rparr>"
  by (simp add: init_defs stream_events_def phase_of_def handshake_completed_def demo_defs)

end
